theory Spec2Isabelle
  imports Complex_Main
begin

section \<open>JavaScript numbers and their decimal rendering\<close>

text \<open>
  The TypeScript sources compute with \<open>number\<close>. Finite values are modelled as \<open>real\<close>
  (rounding and overflow of IEEE doubles are idealised away, and the sign of zero is not
  kept); the only way the code under study leaves the finite values is a division by zero,
  so the results of such a division live in \<open>jsnum\<close>, which adds the three special values
  with the IEEE rules for them.
\<close>

datatype jsnum = Fin real | PosInf | NegInf | NaN

fun jadd :: "jsnum \<Rightarrow> jsnum \<Rightarrow> jsnum" where
  "jadd (Fin a) (Fin b) = Fin (a + b)"
| "jadd NaN _ = NaN"
| "jadd _ NaN = NaN"
| "jadd PosInf NegInf = NaN"
| "jadd NegInf PosInf = NaN"
| "jadd PosInf _ = PosInf"
| "jadd _ PosInf = PosInf"
| "jadd NegInf _ = NegInf"
| "jadd _ NegInf = NegInf"

definition jinf :: "bool \<Rightarrow> jsnum" where
  "jinf positive = (if positive then PosInf else NegInf)"

fun jmul :: "jsnum \<Rightarrow> jsnum \<Rightarrow> jsnum" where
  "jmul (Fin a) (Fin b) = Fin (a * b)"
| "jmul NaN _ = NaN"
| "jmul _ NaN = NaN"
| "jmul (Fin a) PosInf = (if a = 0 then NaN else jinf (0 < a))"
| "jmul (Fin a) NegInf = (if a = 0 then NaN else jinf (a < 0))"
| "jmul PosInf (Fin b) = (if b = 0 then NaN else jinf (0 < b))"
| "jmul NegInf (Fin b) = (if b = 0 then NaN else jinf (b < 0))"
| "jmul PosInf PosInf = PosInf"
| "jmul NegInf NegInf = PosInf"
| "jmul PosInf NegInf = NegInf"
| "jmul NegInf PosInf = NegInf"

fun jdiv :: "jsnum \<Rightarrow> jsnum \<Rightarrow> jsnum" where
  "jdiv (Fin a) (Fin b) =
     (if b = 0 then (if a = 0 then NaN else jinf (0 < a)) else Fin (a / b))"
| "jdiv NaN _ = NaN"
| "jdiv _ NaN = NaN"
| "jdiv (Fin a) _ = Fin 0"
| "jdiv PosInf (Fin b) = jinf (0 \<le> b)"
| "jdiv NegInf (Fin b) = jinf (b < 0)"
| "jdiv _ _ = NaN"

fun jcos :: "jsnum \<Rightarrow> jsnum" where
  "jcos (Fin a) = Fin (cos a)"
| "jcos _ = NaN"

fun jsin :: "jsnum \<Rightarrow> jsnum" where
  "jsin (Fin a) = Fin (sin a)"
| "jsin _ = NaN"

fun is_finite :: "jsnum \<Rightarrow> bool" where
  "is_finite (Fin a) = True"
| "is_finite _ = False"

text \<open>
  \<open>Number.prototype.toString\<close>: an integral value of magnitude at most \<open>2^53\<close> is a double
  and prints as its decimal digits. Any other value prints as the shortest digits that
  read back as the same double, which is a property of doubles, not of reals; that
  rendering is the parameter \<open>digits\<close>.
\<close>

definition digit_char :: "nat \<Rightarrow> char" where
  "digit_char d = ''0123456789'' ! d"

fun nat_toString :: "nat \<Rightarrow> string" where
  "nat_toString n =
     (if n < 10 then [digit_char n] else nat_toString (n div 10) @ [digit_char (n mod 10)])"

declare nat_toString.simps [simp del]

definition Number_toString :: "(real \<Rightarrow> string) \<Rightarrow> real \<Rightarrow> string" where
  "Number_toString digits x =
     (if x = of_int \<lfloor>x\<rfloor> \<and> \<bar>x\<bar> \<le> 2 ^ 53
      then (if x < 0 then CHR ''-'' # nat_toString (nat \<lfloor>- x\<rfloor>) else nat_toString (nat \<lfloor>x\<rfloor>))
      else digits x)"

section \<open>The metrics model (clinic-reports.service: interface ClinicData)\<close>

record TimeInRange =
  inRange :: real
  aboveRange :: real
  belowRange :: real

record Distribution =
  optimal :: real
  suboptimal :: real
  poor :: real

record Gmi =
  average :: real
  distribution :: Distribution

record ClinicData =
  patientCount :: real
  reportingPeriod :: string
  dateRange :: string
  lastUpdated :: string
  timeInRange :: TimeInRange
  gmi :: Gmi

section \<open>The data provider (ClinicReportsService)\<close>

text \<open>
  \<open>HttpClient.get\<close> is the environment: for a path it delivers the parsed document on the
  observable's \<open>next\<close> channel (\<open>Inr\<close>) or an \<open>HttpErrorResponse\<close> on its error channel
  (\<open>Inl\<close>), which is where both transport failures and JSON parse failures arrive. The
  result of \<open>getClinicDataByPeriod\<close> is modelled as the list of paths requested together
  with what the returned observable delivers to its subscriber. \<open>now\<close> is
  \<open>new Date().toLocaleString()\<close> at the time of the call.
\<close>

datatype http_error = HttpErrorResponse string

definition fileMap :: "real \<Rightarrow> string option" where
  "fileMap period =
     (if period = 30 then Some ''/resource/30day-results.json''
      else if period = 60 then Some ''/resource/60day-results.json''
      else if period = 90 then Some ''/resource/90day-results.json''
      else None)"

definition getDefaultData :: "(real \<Rightarrow> string) \<Rightarrow> string \<Rightarrow> real \<Rightarrow> ClinicData" where
  "getDefaultData digits now period =
     \<lparr> patientCount = 0,
       reportingPeriod = Number_toString digits period @ '' days'',
       dateRange = ''No data available'',
       lastUpdated = now,
       timeInRange = \<lparr> inRange = 0, aboveRange = 0, belowRange = 0 \<rparr>,
       gmi = \<lparr> average = 0,
               distribution = \<lparr> optimal = 0, suboptimal = 0, poor = 0 \<rparr> \<rparr> \<rparr>"

definition getClinicDataByPeriod ::
  "(real \<Rightarrow> string) \<Rightarrow> string \<Rightarrow> (string \<Rightarrow> http_error + ClinicData) \<Rightarrow> real
    \<Rightarrow> string list \<times> (http_error + ClinicData)" where
  "getClinicDataByPeriod digits now http_get period =
     (case fileMap period of
        None \<Rightarrow> ([], Inr (getDefaultData digits now period))
      | Some filePath \<Rightarrow>
          ([filePath],
           (case http_get filePath of
              Inr data \<Rightarrow> Inr data
            | Inl error \<Rightarrow> Inr (getDefaultData digits now period))))"

section \<open>Canvas output and chart geometry\<close>

text \<open>
  The overlay plugins draw through the 2D context of the chart's canvas. A run of a
  plugin is modelled by the sequence of context operations it performs, in order;
  the labels and connector lines are read back from that sequence.
\<close>

datatype 'n cmd =
    SetFillStyle string
  | SetFont string
  | SetTextAlign string
  | SetTextBaseline string
  | SetStrokeStyle string
  | SetLineWidth real
  | BeginPath
  | MoveTo 'n 'n
  | LineTo 'n 'n
  | Stroke
  | Arc 'n 'n real real real
  | Fill
  | FillText string 'n 'n

fun labels :: "'n cmd list \<Rightarrow> (string \<times> 'n \<times> 'n) list" where
  "labels [] = []"
| "labels (FillText t x y # cs) = (t, x, y) # labels cs"
| "labels (c # cs) = labels cs"

fun stroked_paths :: "('n \<times> 'n) list \<Rightarrow> 'n cmd list \<Rightarrow> ('n \<times> 'n) list list" where
  "stroked_paths cur [] = []"
| "stroked_paths cur (BeginPath # cs) = stroked_paths [] cs"
| "stroked_paths cur (MoveTo x y # cs) = stroked_paths (cur @ [(x, y)]) cs"
| "stroked_paths cur (LineTo x y # cs) = stroked_paths (cur @ [(x, y)]) cs"
| "stroked_paths cur (Stroke # cs) = cur # stroked_paths cur cs"
| "stroked_paths cur (c # cs) = stroked_paths cur cs"

text \<open>
  What the charting library hands to a plugin at draw time: \<open>chart.width\<close>,
  \<open>chart.height\<close>, the fields of \<open>chart.chartArea\<close> and, for the bar chart, the first bar
  element \<open>chart.getDatasetMeta(0).data[0]\<close>.
\<close>

record geometry =
  chart_width :: real
  chart_height :: real
  area_left :: real
  area_top :: real
  area_right :: real
  area_bottom :: real
  area_height :: real
  bar_x :: real
  bar_width :: real

section \<open>The component (AppComponent) and the page around it\<close>

record Chart =
  chart_id :: nat
  canvas :: string
  chart_type :: string
  datasets :: "(string \<times> real list) list"

record AppComponent =
  selectedPeriod :: real
  clinicData :: ClinicData
  showTooltip :: bool
  charts :: "Chart list"

text \<open>
  The page adds what the component's methods reach outside \<open>this\<close>: the ids of the
  elements \<open>document.getElementById\<close> finds, the library's registry of live charts with
  its id counter, and the number of \<open>setTimeout\<close> callbacks that are scheduled to run
  \<open>initializeCharts\<close> and have not run yet.
\<close>

record page = AppComponent +
  document :: "string set"
  instances :: "Chart list"
  next_chart_id :: nat
  timers :: nat





definition verticalStacked_datasets :: "ClinicData \<Rightarrow> (string \<times> real list) list" where
  "verticalStacked_datasets cd =
     [(''Below Range'', [belowRange (timeInRange cd)]),
      (''In Range'', [inRange (timeInRange cd)]),
      (''Above Range'', [aboveRange (timeInRange cd)]),
      (''Very High'', [1])]"

definition horizontalScale_datasets :: "(string \<times> real list) list" where
  "horizontalScale_datasets =
     [(''Very Low (40-54)'', [14]),
      (''Low (54-70)'', [16]),
      (''Target Range (70-180)'', [110]),
      (''High (180-240)'', [60]),
      (''Very High (240-400)'', [160])]"

definition horizontalScale_x_max :: real where
  "horizontalScale_x_max = 360"


definition gmi_datasets :: "ClinicData \<Rightarrow> (string \<times> real list) list" where
  "gmi_datasets cd =
     [([], [optimal (distribution (gmi cd)),
            suboptimal (distribution (gmi cd)),
            poor (distribution (gmi cd))])]"








definition surfaces :: "string list" where
  "surfaces =
     [''timeInRangeVerticalStacked'', ''timeInRangeHorizontalScale'', ''timeInRangeHorizontal'',
      ''gmiPieChart'', ''gmiRanges'']"







section \<open>The overlay plugins\<close>

text \<open>
  The repository holds two copies of the component. The definitions without a suffix
  follow the copy with the proportional scale ruler and the data-driven pie labels; the
  definitions ending in \<open>_alt\<close> follow \<open>src/app/app.component.ts\<close> where that copy
  differs.
\<close>

subsection \<open>Vertical stacked bar: plugin customLabels\<close>

definition segmentHeights :: "ClinicData \<Rightarrow> geometry \<Rightarrow> real \<times> real \<times> real" where
  "segmentHeights cd g =
     (let total = area_height g;
          belowHeight = (belowRange (timeInRange cd) / 100) * total;
          inRangeHeight = (inRange (timeInRange cd) / 100) * total;
          aboveHeight = (aboveRange (timeInRange cd) / 100) * total
      in (belowHeight, inRangeHeight, aboveHeight))"

definition verticalStacked_afterDraw :: "page \<Rightarrow> geometry \<Rightarrow> real cmd list" where
  "verticalStacked_afterDraw s g =
     (let x = bar_x g + bar_width g / 2 + 30
      in case segmentHeights (clinicData s) g of
        (belowHeight, inRangeHeight, aboveHeight) \<Rightarrow>
          [SetFillStyle ''#333'', SetFont ''bold 14px Arial'', SetTextAlign ''left'',
           FillText ''2%'' x (area_bottom g - belowHeight / 2),
           FillText ''82%'' x (area_bottom g - belowHeight - inRangeHeight / 2),
           FillText ''1%'' x (area_top g + 15),
           FillText ''15%'' x
             (area_bottom g - belowHeight - inRangeHeight - aboveHeight * 0.3)])"

definition verticalStacked_afterDraw_alt :: "page \<Rightarrow> geometry \<Rightarrow> real cmd list" where
  "verticalStacked_afterDraw_alt s g =
     (let x = bar_x g + bar_width g / 2 + 20
      in case segmentHeights (clinicData s) g of
        (belowHeight, inRangeHeight, aboveHeight) \<Rightarrow>
          [SetFillStyle ''#333'', SetFont ''bold 12px Arial'', SetTextAlign ''left'',
           FillText ''2%'' x (area_bottom g - belowHeight / 2),
           FillText ''82%'' x (area_bottom g - belowHeight - inRangeHeight / 2),
           FillText ''15%'' x
             (area_bottom g - belowHeight - inRangeHeight - aboveHeight / 3),
           FillText ''1%'' x (area_top g + 25)])"

text \<open>
  The centre of the \<open>k\<close>-th segment of a stack, in the words of the specification: the
  bottom edge of the draw area, less the heights of the segments stacked below it, less
  half of its own height, where the height of a segment of value \<open>v\<close> is
  \<open>v / 100 * drawAreaHeight\<close>.
\<close>

definition spec_height :: "geometry \<Rightarrow> real \<Rightarrow> real" where
  "spec_height g v = v / 100 * area_height g"

definition spec_centre :: "geometry \<Rightarrow> real list \<Rightarrow> nat \<Rightarrow> real" where
  "spec_centre g vs k =
     area_bottom g - sum_list (map (spec_height g) (take k vs)) - spec_height g (vs ! k) / 2"

definition stack_values :: "ClinicData \<Rightarrow> real list" where
  "stack_values cd = map (\<lambda>d. hd (snd d)) (verticalStacked_datasets cd)"

subsection \<open>Horizontal scale ruler: plugin scaleLabels\<close>

definition ranges :: "(real \<times> real) list" where
  "ranges = [(40, 0), (54, 14 / 360), (70, 30 / 360), (180, 140 / 360), (240, 200 / 360), (400, 1)]"

definition dividerLines :: "real list" where
  "dividerLines = [14 / 360, 140 / 360, 1]"

definition scale_ticks :: "(real \<Rightarrow> string) \<Rightarrow> geometry \<Rightarrow> real cmd list" where
  "scale_ticks digits g =
     (let totalWidth = area_right g - area_left g
      in map (\<lambda>(val, position).
                FillText (Number_toString digits val)
                  (area_left g + (totalWidth * position)) (area_top g - 8)) ranges)"

definition scale_dividers :: "geometry \<Rightarrow> real cmd list" where
  "scale_dividers g =
     (let totalWidth = area_right g - area_left g
      in concat (map (\<lambda>position.
                let x = area_left g + (totalWidth * position)
                in [BeginPath, MoveTo x (area_top g), LineTo x (area_bottom g), Stroke])
              dividerLines))"

definition horizontalScale_afterDraw :: "(real \<Rightarrow> string) \<Rightarrow> geometry \<Rightarrow> real cmd list" where
  "horizontalScale_afterDraw digits g =
     (let totalWidth = area_right g - area_left g
      in [SetFillStyle ''#666'', SetFont ''11px Arial'', SetTextAlign ''center'']
         @ scale_ticks digits g
         @ [SetStrokeStyle ''#ffffff'', SetLineWidth 1]
         @ scale_dividers g
         @ [SetFont ''10px Arial'', SetFillStyle ''#999'', SetTextAlign ''center'',
            FillText ''mg/dL'' (area_left g + totalWidth / 2) (area_top g - 25)])"

definition horizontalScale_datasets_alt :: "(string \<times> real list) list" where
  "horizontalScale_datasets_alt =
     [(''40-54'', [10]), (''54-70'', [10]), (''70-180'', [10]), (''180-240'', [10]),
      (''240-400'', [10])]"

definition labelPositions_alt :: "geometry \<Rightarrow> (string \<times> real) list" where
  "labelPositions_alt g =
     (let totalWidth = area_right g - area_left g;
          segmentWidth = totalWidth / 5
      in [(''40'', area_left g),
          (''54'', area_left g + segmentWidth * 1),
          (''70'', area_left g + segmentWidth * 2),
          (''180'', area_left g + segmentWidth * 3),
          (''240'', area_left g + segmentWidth * 4),
          (''400'', area_right g)])"

definition horizontalScale_afterDraw_alt :: "geometry \<Rightarrow> real cmd list" where
  "horizontalScale_afterDraw_alt g =
     [SetFillStyle ''#666'', SetFont ''10px Arial'', SetTextAlign ''center'']
     @ map (\<lambda>(text, x). FillText text x (area_top g - 5)) (labelPositions_alt g)"

text \<open>
  The ruler in the words of the specification: tick \<open>i\<close> stands at the cumulated width of
  the segments before it, over the axis maximum, times the draw width.
\<close>

definition spec_tick_position :: "(string \<times> real list) list \<Rightarrow> real \<Rightarrow> nat \<Rightarrow> real" where
  "spec_tick_position ds x_max i = sum_list (map (\<lambda>d. hd (snd d)) (take i ds)) / x_max"

subsection \<open>Pie chart: plugin customLabels\<close>

text \<open>
  \<open>data\<close> is \<open>chart.data.datasets[0].data\<close>, the three-element array \<open>createPieChart\<close>
  put into the configuration. \<open>rotation\<close> is the literal 150 of the source, which stands
  both in the chart options and in the start angle; \<open>pie_afterDraw\<close> fixes it to that
  value.
\<close>

definition segmentAngle :: "real \<Rightarrow> real \<Rightarrow> jsnum" where
  "segmentAngle v total' = jmul (jmul (jdiv (Fin v) (Fin total')) (Fin 2)) (Fin pi)"

definition pie_segment ::
  "real \<Rightarrow> real \<Rightarrow> real \<Rightarrow> nat \<Rightarrow> jsnum \<Rightarrow> real \<times> string \<Rightarrow> jsnum cmd list" where
  "pie_segment centerX centerY total' index currentAngle segment =
     (let radius = 60;
          labelAngle = jadd currentAngle (jdiv (segmentAngle (fst segment) total') (Fin 2));
          innerX = jadd (Fin centerX) (jmul (jcos labelAngle) (Fin radius));
          innerY = jadd (Fin centerY) (jmul (jsin labelAngle) (Fin radius));
          labelX = (if index = 0 then centerX - 140
                    else if index = 1 then centerX + 130
                    else if index = 2 then centerX + 110 else centerX);
          labelY = (if index = 0 then centerY - 10
                    else if index = 1 then centerY + 20
                    else if index = 2 then centerY + 90 else centerY);
          elbow = (\<lambda>extra midX2 midY2.
                     [LineTo (jadd (Fin centerX) (jmul (jcos labelAngle) (Fin (radius + extra))))
                             (jadd (Fin centerY) (jmul (jsin labelAngle) (Fin (radius + extra)))),
                      LineTo (Fin midX2) (Fin midY2),
                      LineTo (Fin labelX) (Fin (labelY - 5))])
      in [SetStrokeStyle ''#666'', SetLineWidth 1.5, BeginPath, MoveTo innerX innerY]
         @ (if index = 0 then elbow 25 (centerX - 110) (centerY - 10)
            else if index = 1 then elbow 30 (centerX + 100) (centerY + 20)
            else if index = 2 then elbow 25 (centerX + 80) (centerY + 75) else [])
         @ [LineTo (Fin labelX) (Fin (labelY - 5)), Stroke,
            SetFillStyle ''white'', BeginPath,
            Arc (Fin labelX) (Fin (labelY - 5)) 16 0 (2 * pi), Fill,
            SetFillStyle ''#333'', SetFont ''bold 12px Arial'', SetTextAlign ''center'',
            SetTextBaseline ''middle'',
            FillText (snd segment) (Fin labelX) (Fin (labelY - 5))])"

fun pie_forEach ::
  "real \<Rightarrow> real \<Rightarrow> real \<Rightarrow> nat \<Rightarrow> jsnum \<Rightarrow> (real \<times> string) list \<Rightarrow> jsnum cmd list" where
  "pie_forEach centerX centerY total' index currentAngle [] = []"
| "pie_forEach centerX centerY total' index currentAngle (segment # segments) =
     pie_segment centerX centerY total' index currentAngle segment
     @ pie_forEach centerX centerY total' (Suc index)
         (jadd currentAngle (segmentAngle (fst segment) total')) segments"

definition pie_afterDraw_at ::
  "real \<Rightarrow> (real \<Rightarrow> string) \<Rightarrow> real list \<Rightarrow> geometry \<Rightarrow> jsnum cmd list" where
  "pie_afterDraw_at rotation digits data g =
     (let centerX = chart_width g / 2;
          centerY = chart_height g / 2;
          total = foldl (+) 0 data;
          currentAngle = - pi / 2 + (rotation * pi / 180);
          segments = [(data ! 0, Number_toString digits (data ! 0) @ ''%''),
                      (data ! 1, Number_toString digits (data ! 1) @ ''%''),
                      (data ! 2, Number_toString digits (data ! 2) @ ''%'')]
      in pie_forEach centerX centerY total 0 (Fin currentAngle) segments)"

definition pie_afterDraw :: "(real \<Rightarrow> string) \<Rightarrow> real list \<Rightarrow> geometry \<Rightarrow> jsnum cmd list" where
  "pie_afterDraw digits data g = pie_afterDraw_at 150 digits data g"

definition pie_data :: "ClinicData \<Rightarrow> real list" where
  "pie_data cd = snd (hd (gmi_datasets cd))"

definition pie_labels_alt :: "geometry \<Rightarrow> (string \<times> real \<times> real \<times> real) list" where
  "pie_labels_alt g =
     (let centerX = chart_width g / 2;
          centerY = chart_height g / 2
      in [(''72%'', pi, centerX - 80, centerY - 20),
          (''23%'', 0, centerX + 80, centerY + 10),
          (''5%'', pi / 2 + 0.3, centerX + 20, centerY + 80)])"

definition pie_afterDraw_alt :: "real list \<Rightarrow> geometry \<Rightarrow> real cmd list" where
  "pie_afterDraw_alt data g =
     (let centerX = chart_width g / 2;
          centerY = chart_height g / 2;
          radius = 80
      in [SetFillStyle ''#333'', SetFont ''bold 14px Arial'', SetTextAlign ''center'',
          SetStrokeStyle ''#666'', SetLineWidth 1]
         @ concat (map (\<lambda>(text, angle, x, y).
              (let edgeX = centerX + cos angle * radius;
                   edgeY = centerY + sin angle * radius
               in [BeginPath, MoveTo edgeX edgeY, LineTo x y, Stroke, FillText text x (y - 5)]))
             (pie_labels_alt g)))"

text \<open>The three anchors the source assigns by hand, relative to the centre of the chart.\<close>

definition pie_anchors :: "geometry \<Rightarrow> (real \<times> real) list" where
  "pie_anchors g =
     [(chart_width g / 2 - 140, chart_height g / 2 - 10 - 5),
      (chart_width g / 2 + 130, chart_height g / 2 + 20 - 5),
      (chart_width g / 2 + 110, chart_height g / 2 + 90 - 5)]"

fun point_finite :: "jsnum \<times> jsnum \<Rightarrow> bool" where
  "point_finite (x, y) = (is_finite x \<and> is_finite y)"

section \<open>Export: downloadImage\<close>

text \<open>
  \<open>new Date()\<close> is the environment, given by its UTC fields. \<open>toISOString\<close> prints the
  year with four digits when it lies in 0..9999 and as a sign and six digits otherwise,
  then \<open>-MM-DDTHH:mm:ss.sssZ\<close>.
\<close>

record date_utc =
  year :: int
  month :: nat
  day :: nat
  hours :: nat
  minutes :: nat
  seconds :: nat
  milliseconds :: nat

definition padStart :: "nat \<Rightarrow> char \<Rightarrow> string \<Rightarrow> string" where
  "padStart n c s = replicate (n - length s) c @ s"

definition year_string :: "int \<Rightarrow> string" where
  "year_string y =
     (if 0 \<le> y \<and> y \<le> 9999 then padStart 4 CHR ''0'' (nat_toString (nat y))
      else (if y < 0 then CHR ''-'' else CHR ''+'') # padStart 6 CHR ''0'' (nat_toString (nat \<bar>y\<bar>)))"

definition two :: "nat \<Rightarrow> string" where
  "two n = padStart 2 CHR ''0'' (nat_toString n)"

definition toISOString :: "date_utc \<Rightarrow> string" where
  "toISOString d =
     year_string (year d) @ ''-'' @ two (month d) @ ''-'' @ two (day d) @ ''T'' @
     two (hours d) @ '':'' @ two (minutes d) @ '':'' @ two (seconds d) @ ''.'' @
     padStart 3 CHR ''0'' (nat_toString (milliseconds d)) @ ''Z''"

definition replace_colon_dot :: "string \<Rightarrow> string" where
  "replace_colon_dot s = map (\<lambda>c. if c = CHR '':'' \<or> c = CHR ''.'' then CHR ''-'' else c) s"

definition slice_from_start :: "string \<Rightarrow> int \<Rightarrow> string" where
  "slice_from_start s e =
     (if e < 0 then take (nat (max (int (length s) + e) 0)) s else take (nat e) s)"

definition downloadImage_filename :: "date_utc \<Rightarrow> string" where
  "downloadImage_filename now =
     (let timestamp = slice_from_start (replace_colon_dot (toISOString now)) (- 5)
      in ''clinic-outcomes-'' @ timestamp @ ''.png'')"

section \<open>Example inputs\<close>

text \<open>
  The snapshot the component starts with, a page on which all five canvases are mounted
  and no chart exists yet, a page on which two charts of an earlier period are live, a
  fetch that fails, and a 300 by 200 draw area.
\<close>

definition example_data :: ClinicData where
  "example_data =
     \<lparr> patientCount = 120, reportingPeriod = ''30 days'',
       dateRange = ''01/01/2024 - 01/31/2024'', lastUpdated = ''01/06/2024, 3:00 PM'',
       timeInRange = \<lparr> inRange = 82, aboveRange = 15, belowRange = 2 \<rparr>,
       gmi = \<lparr> average = 6.7,
               distribution = \<lparr> optimal = 72, suboptimal = 23, poor = 5 \<rparr> \<rparr> \<rparr>"

definition example_page :: page where
  "example_page =
     \<lparr> selectedPeriod = 30, clinicData = example_data, showTooltip = False, charts = [],
       document = set surfaces, instances = [], next_chart_id = 0, timers = 0 \<rparr>"

definition example_live_page :: page where
  "example_live_page =
     \<lparr> selectedPeriod = 30, clinicData = example_data, showTooltip = False,
       charts = [\<lparr> chart_id = 0, canvas = ''timeInRangeVerticalStacked'', chart_type = ''bar'',
                    datasets = verticalStacked_datasets example_data \<rparr>,
                 \<lparr> chart_id = 1, canvas = ''gmiPieChart'', chart_type = ''pie'',
                    datasets = gmi_datasets example_data \<rparr>],
       document = {''timeInRangeVerticalStacked'', ''gmiPieChart''},
       instances = [\<lparr> chart_id = 0, canvas = ''timeInRangeVerticalStacked'', chart_type = ''bar'',
                       datasets = verticalStacked_datasets example_data \<rparr>,
                    \<lparr> chart_id = 1, canvas = ''gmiPieChart'', chart_type = ''pie'',
                       datasets = gmi_datasets example_data \<rparr>],
       next_chart_id = 2, timers = 0 \<rparr>"

definition example_fetch_fails :: "string \<Rightarrow> http_error + ClinicData" where
  "example_fetch_fails path = Inl (HttpErrorResponse ''Http failure response'')"

definition example_geometry :: geometry where
  "example_geometry =
     \<lparr> chart_width = 300, chart_height = 200, area_left = 0, area_top = 0, area_right = 300,
       area_bottom = 200, area_height = 200, bar_x = 50, bar_width = 20 \<rparr>"

section \<open>Auxiliary notions for the proofs\<close>


definition plain :: "string \<Rightarrow> bool" where
  "plain s \<longleftrightarrow> CHR '':'' \<notin> set s \<and> CHR ''.'' \<notin> set s"

section \<open>Basic facts about the model\<close>

lemma labels_append: "labels (xs @ ys) = labels xs @ labels ys"
  by (induction xs rule: labels.induct) simp_all

lemma segmentHeights_eq:
  "segmentHeights cd g =
     (spec_height g (belowRange (timeInRange cd)),
      spec_height g (inRange (timeInRange cd)),
      spec_height g (aboveRange (timeInRange cd)))"
  by (simp add: segmentHeights_def Let_def spec_height_def)

lemma stack_values_eq:
  "stack_values cd =
     [belowRange (timeInRange cd), inRange (timeInRange cd), aboveRange (timeInRange cd), 1]"
  by (simp add: stack_values_def verticalStacked_datasets_def)

lemma tick_texts:
  "Number_toString digits 40 = ''40''" "Number_toString digits 54 = ''54''"
  "Number_toString digits 70 = ''70''" "Number_toString digits 180 = ''180''"
  "Number_toString digits 240 = ''240''" "Number_toString digits 400 = ''400''"
  by (simp_all add: Number_toString_def nat_toString.simps digit_char_def)

lemma spec_ticks:
  "map (spec_tick_position horizontalScale_datasets horizontalScale_x_max) [0, 1, 2, 3, 4, 5] =
     [0, 14 / 360, 30 / 360, 140 / 360, 200 / 360, 1]"
  by (simp add: spec_tick_position_def horizontalScale_datasets_def horizontalScale_x_max_def)

lemma scale_ticks_labels:
  "labels (scale_ticks digits g) =
     map (\<lambda>(text, p). (text, area_left g + (area_right g - area_left g) * p, area_top g - 8))
       [(''40'', 0), (''54'', 14 / 360), (''70'', 30 / 360), (''180'', 140 / 360),
        (''240'', 200 / 360), (''400'', 1)]"
  by (simp add: scale_ticks_def ranges_def Let_def tick_texts)

lemma scale_alt_labels:
  "labels (horizontalScale_afterDraw_alt g) =
     map (\<lambda>(text, p). (text, area_left g + (area_right g - area_left g) * p, area_top g - 5))
       [(''40'', 0), (''54'', 1 / 5), (''70'', 2 / 5), (''180'', 3 / 5),
        (''240'', 4 / 5), (''400'', 1)]"
  by (simp add: horizontalScale_afterDraw_alt_def labelPositions_alt_def Let_def)

lemma scale_afterDraw_labels:
  "labels (horizontalScale_afterDraw digits g) =
     labels (scale_ticks digits g)
     @ [(''mg/dL'', area_left g + (area_right g - area_left g) / 2, area_top g - 25)]"
  by (simp add: horizontalScale_afterDraw_def Let_def labels_append scale_dividers_def
      dividerLines_def)

lemma scaled_sorted:
  fixes l w :: real
  assumes "0 \<le> w" and "sorted ps"
  shows "sorted (map (\<lambda>p. l + w * p) ps)"
  using assms by (simp add: sorted_map sorted_wrt_iff_nth_less mult_left_mono)

lemma labels_pie_segment:
  "index < 3 \<Longrightarrow>
   labels (pie_segment centerX centerY t index currentAngle segment) =
     [(snd segment,
       Fin (centerX + [- 140, 130, 110] ! index),
       Fin (centerY + [- 10, 20, 90] ! index - 5))]"
  by (cases "index = 0"; cases "index = 1"; cases "index = 2")
     (simp_all add: pie_segment_def Let_def)

lemma labels_pie_afterDraw_at:
  "labels (pie_afterDraw_at rotation digits data g) =
     [(Number_toString digits (data ! 0) @ ''%'',
         Fin (chart_width g / 2 - 140), Fin (chart_height g / 2 - 10 - 5)),
      (Number_toString digits (data ! 1) @ ''%'',
         Fin (chart_width g / 2 + 130), Fin (chart_height g / 2 + 20 - 5)),
      (Number_toString digits (data ! 2) @ ''%'',
         Fin (chart_width g / 2 + 110), Fin (chart_height g / 2 + 90 - 5))]"
  by (simp add: pie_afterDraw_at_def Let_def labels_append labels_pie_segment)

lemma labels_pie_afterDraw_alt:
  "labels (pie_afterDraw_alt data g) =
     [(''72%'', chart_width g / 2 - 80, chart_height g / 2 - 20 - 5),
      (''23%'', chart_width g / 2 + 80, chart_height g / 2 + 10 - 5),
      (''5%'', chart_width g / 2 + 20, chart_height g / 2 + 80 - 5)]"
  by (simp add: pie_afterDraw_alt_def pie_labels_alt_def Let_def)

lemma pie_data_eq:
  "pie_data cd =
     [optimal (distribution (gmi cd)), suboptimal (distribution (gmi cd)),
      poor (distribution (gmi cd))]"
  by (simp add: pie_data_def gmi_datasets_def)

subsection \<open>Decimal digits and the ISO timestamp\<close>

lemma digit_char_plain: "d < 10 \<Longrightarrow> digit_char d \<in> set ''0123456789''"
  unfolding digit_char_def by (rule nth_mem) simp

lemma nat_toString_plain: "set (nat_toString n) \<subseteq> set ''0123456789''"
proof (induction n rule: nat_toString.induct)
  case (1 n)
  show ?case
  proof (cases "n < 10")
    case True
    then show ?thesis
      using digit_char_plain [of n] by (subst nat_toString.simps) simp
  next
    case False
    have "n mod 10 < 10" by simp
    then have "digit_char (n mod 10) \<in> set ''0123456789''" by (rule digit_char_plain)
    with False "1.IH" show ?thesis
      by (subst nat_toString.simps) simp
  qed
qed

lemma nat_toString_single: "m < 10 \<Longrightarrow> length (nat_toString m) = 1"
  by (subst nat_toString.simps) simp

lemma nat_toString_step: "length (nat_toString m) \<le> Suc (length (nat_toString (m div 10)))"
  by (subst nat_toString.simps) simp

lemma nat_toString_length: "n < 1000 \<Longrightarrow> length (nat_toString n) \<le> 3"
proof -
  assume n: "n < 1000"
  then have "n div 10 div 10 < 10" by linarith
  then have "length (nat_toString (n div 10 div 10)) = 1" by (rule nat_toString_single)
  then show ?thesis
    using nat_toString_step [of n] nat_toString_step [of "n div 10"] by linarith
qed

lemma replace_plain: "plain s \<Longrightarrow> replace_colon_dot s = s"
  unfolding plain_def replace_colon_dot_def by (induction s) auto

lemma replace_append: "replace_colon_dot (s @ t) = replace_colon_dot s @ replace_colon_dot t"
  by (simp add: replace_colon_dot_def)

lemma plain_nat_toString: "plain (nat_toString n)"
  using nat_toString_plain [of n] unfolding plain_def by auto

lemma plain_padStart: "plain s \<Longrightarrow> plain (padStart k CHR ''0'' s)"
  by (auto simp: plain_def padStart_def)

lemma plain_two: "plain (two n)"
  by (simp add: two_def plain_padStart plain_nat_toString)

lemma plain_year: "plain (year_string y)"
  using plain_padStart [OF plain_nat_toString]
  by (auto simp: year_string_def plain_def)

lemma length_pad3: "n < 1000 \<Longrightarrow> length (padStart 3 CHR ''0'' (nat_toString n)) = 3"
  using nat_toString_length [of n] by (simp add: padStart_def)

subsection \<open>Destroying and mounting charts\<close>







section \<open>The claims\<close>

subsection \<open>C1: the pie layout when the distribution sums to zero\<close>

text \<open>
  C1 asks that, when the three GMI values sum to zero, the pie layout skip the angle and
  connector computation, put the three labels at their anchors with connectors of length
  zero, and let no coordinate be NaN. The source has no such guard. The snapshot the
  provider returns after a failed fetch has the distribution \<open>0, 0, 0\<close>; on it
  \<open>segment.value / total\<close> is \<open>0 / 0\<close>, every segment angle is NaN, and each of the three
  connectors starts with two waypoints \<open>(NaN, NaN)\<close> before it reaches its elbow and its
  anchor. The labels themselves stay at their three anchors.
\<close>

theorem pie_zero_total_connectors_not_a_number:
  "pie_data (getDefaultData digits now period) = [0, 0, 0] \<and>
   segmentAngle 0 (foldl (+) 0 [0, 0, 0]) = NaN \<and>
   stroked_paths [] (pie_afterDraw digits [0, 0, 0] g) =
     [[(NaN, NaN), (NaN, NaN),
       (Fin (chart_width g / 2 - 110), Fin (chart_height g / 2 - 10)),
       (Fin (chart_width g / 2 - 140), Fin (chart_height g / 2 - 10 - 5)),
       (Fin (chart_width g / 2 - 140), Fin (chart_height g / 2 - 10 - 5))],
      [(NaN, NaN), (NaN, NaN),
       (Fin (chart_width g / 2 + 100), Fin (chart_height g / 2 + 20)),
       (Fin (chart_width g / 2 + 130), Fin (chart_height g / 2 + 20 - 5)),
       (Fin (chart_width g / 2 + 130), Fin (chart_height g / 2 + 20 - 5))],
      [(NaN, NaN), (NaN, NaN),
       (Fin (chart_width g / 2 + 80), Fin (chart_height g / 2 + 75)),
       (Fin (chart_width g / 2 + 110), Fin (chart_height g / 2 + 90 - 5)),
       (Fin (chart_width g / 2 + 110), Fin (chart_height g / 2 + 90 - 5))]] \<and>
   \<not> list_all (list_all point_finite) (stroked_paths [] (pie_afterDraw digits [0, 0, 0] g)) \<and>
   map snd (labels (pie_afterDraw digits [0, 0, 0] g)) =
     map (\<lambda>(x, y). (Fin x, Fin y)) (pie_anchors g)"
proof -
  have d: "pie_data (getDefaultData digits now period) = [0, 0, 0]"
    by (simp add: pie_data_eq getDefaultData_def)
  have a: "segmentAngle 0 (foldl (+) 0 [0, 0, 0]) = NaN"
    by (simp add: segmentAngle_def)
  have paths: "stroked_paths [] (pie_afterDraw digits [0, 0, 0] g) =
     [[(NaN, NaN), (NaN, NaN),
       (Fin (chart_width g / 2 - 110), Fin (chart_height g / 2 - 10)),
       (Fin (chart_width g / 2 - 140), Fin (chart_height g / 2 - 10 - 5)),
       (Fin (chart_width g / 2 - 140), Fin (chart_height g / 2 - 10 - 5))],
      [(NaN, NaN), (NaN, NaN),
       (Fin (chart_width g / 2 + 100), Fin (chart_height g / 2 + 20)),
       (Fin (chart_width g / 2 + 130), Fin (chart_height g / 2 + 20 - 5)),
       (Fin (chart_width g / 2 + 130), Fin (chart_height g / 2 + 20 - 5))],
      [(NaN, NaN), (NaN, NaN),
       (Fin (chart_width g / 2 + 80), Fin (chart_height g / 2 + 75)),
       (Fin (chart_width g / 2 + 110), Fin (chart_height g / 2 + 90 - 5)),
       (Fin (chart_width g / 2 + 110), Fin (chart_height g / 2 + 90 - 5))]]"
    by (simp add: pie_afterDraw_def pie_afterDraw_at_def pie_segment_def Let_def segmentAngle_def)
  have nonfinite:
    "\<not> list_all (list_all point_finite) (stroked_paths [] (pie_afterDraw digits [0, 0, 0] g))"
    unfolding paths by simp
  have anchors: "map snd (labels (pie_afterDraw digits [0, 0, 0] g)) =
     map (\<lambda>(x, y). (Fin x, Fin y)) (pie_anchors g)"
    by (simp add: pie_afterDraw_def labels_pie_afterDraw_at pie_anchors_def)
  show ?thesis
    using d a paths nonfinite anchors by blast
qed

subsection \<open>C2: label anchors of the vertical stacked bar\<close>

text \<open>
  C2, as amended. The datasets are stacked in the order Below Range, In Range, Above
  Range, Very High, the last with the constant value 1; the plugin turns a percentage
  \<open>v\<close> into the height \<open>v / 100 * chartArea.height\<close>; the labels of the below-range and the
  in-range segment are centred in their segments; the label of the above-range segment
  stands three tenths of that segment's height above its lower edge (one third in
  \<open>src/app/app.component.ts\<close>), not at its centre; the very-high label is pinned 15 pixels
  (25 in \<open>src/app/app.component.ts\<close>) below the top of the draw area. All four labels
  share the x coordinate right of the bar.
\<close>

theorem verticalStacked_label_anchors:
  "map fst (verticalStacked_datasets (clinicData s)) =
     [''Below Range'', ''In Range'', ''Above Range'', ''Very High''] \<and>
   stack_values (clinicData s) =
     [belowRange (timeInRange (clinicData s)), inRange (timeInRange (clinicData s)),
      aboveRange (timeInRange (clinicData s)), 1] \<and>
   segmentHeights (clinicData s) g =
     (spec_height g (belowRange (timeInRange (clinicData s))),
      spec_height g (inRange (timeInRange (clinicData s))),
      spec_height g (aboveRange (timeInRange (clinicData s)))) \<and>
   labels (verticalStacked_afterDraw s g) =
     [(''2%'', bar_x g + bar_width g / 2 + 30, spec_centre g (stack_values (clinicData s)) 0),
      (''82%'', bar_x g + bar_width g / 2 + 30, spec_centre g (stack_values (clinicData s)) 1),
      (''1%'', bar_x g + bar_width g / 2 + 30, area_top g + 15),
      (''15%'', bar_x g + bar_width g / 2 + 30,
         area_bottom g - spec_height g (belowRange (timeInRange (clinicData s)))
           - spec_height g (inRange (timeInRange (clinicData s)))
           - spec_height g (aboveRange (timeInRange (clinicData s))) * 0.3)] \<and>
   labels (verticalStacked_afterDraw_alt s g) =
     [(''2%'', bar_x g + bar_width g / 2 + 20, spec_centre g (stack_values (clinicData s)) 0),
      (''82%'', bar_x g + bar_width g / 2 + 20, spec_centre g (stack_values (clinicData s)) 1),
      (''15%'', bar_x g + bar_width g / 2 + 20,
         area_bottom g - spec_height g (belowRange (timeInRange (clinicData s)))
           - spec_height g (inRange (timeInRange (clinicData s)))
           - spec_height g (aboveRange (timeInRange (clinicData s))) / 3),
      (''1%'', bar_x g + bar_width g / 2 + 20, area_top g + 25)]"
proof -
  have order: "map fst (verticalStacked_datasets (clinicData s)) =
      [''Below Range'', ''In Range'', ''Above Range'', ''Very High'']"
    by (simp add: verticalStacked_datasets_def)
  have c0: "spec_centre g (stack_values (clinicData s)) 0 =
      area_bottom g - spec_height g (belowRange (timeInRange (clinicData s))) / 2"
    by (simp add: spec_centre_def stack_values_eq)
  have c1: "spec_centre g (stack_values (clinicData s)) 1 =
      area_bottom g - spec_height g (belowRange (timeInRange (clinicData s)))
        - spec_height g (inRange (timeInRange (clinicData s))) / 2"
    by (simp add: spec_centre_def stack_values_eq)
  have main: "labels (verticalStacked_afterDraw s g) =
     [(''2%'', bar_x g + bar_width g / 2 + 30, spec_centre g (stack_values (clinicData s)) 0),
      (''82%'', bar_x g + bar_width g / 2 + 30, spec_centre g (stack_values (clinicData s)) 1),
      (''1%'', bar_x g + bar_width g / 2 + 30, area_top g + 15),
      (''15%'', bar_x g + bar_width g / 2 + 30,
         area_bottom g - spec_height g (belowRange (timeInRange (clinicData s)))
           - spec_height g (inRange (timeInRange (clinicData s)))
           - spec_height g (aboveRange (timeInRange (clinicData s))) * 0.3)]"
    unfolding c0 c1 by (simp add: verticalStacked_afterDraw_def segmentHeights_eq Let_def)
  have alt: "labels (verticalStacked_afterDraw_alt s g) =
     [(''2%'', bar_x g + bar_width g / 2 + 20, spec_centre g (stack_values (clinicData s)) 0),
      (''82%'', bar_x g + bar_width g / 2 + 20, spec_centre g (stack_values (clinicData s)) 1),
      (''15%'', bar_x g + bar_width g / 2 + 20,
         area_bottom g - spec_height g (belowRange (timeInRange (clinicData s)))
           - spec_height g (inRange (timeInRange (clinicData s)))
           - spec_height g (aboveRange (timeInRange (clinicData s))) / 3),
      (''1%'', bar_x g + bar_width g / 2 + 20, area_top g + 25)]"
    unfolding c0 c1 by (simp add: verticalStacked_afterDraw_alt_def segmentHeights_eq Let_def)
  show ?thesis
    using order stack_values_eq segmentHeights_eq main alt by blast
qed

text \<open>
  C2 as stated puts the above-range label at the centre of its segment. On the initial
  snapshot (2, 82, 15) and a draw area of height 200 the centre is at y = 17, while the
  plugin draws the label at y = 23 (at y = 22 in \<open>src/app/app.component.ts\<close>).
\<close>

theorem above_range_label_off_centre:
  "labels (verticalStacked_afterDraw example_page example_geometry) ! 3 = (''15%'', 90, 23) \<and>
   labels (verticalStacked_afterDraw_alt example_page example_geometry) ! 2 = (''15%'', 80, 22) \<and>
   spec_centre example_geometry (stack_values (clinicData example_page)) 2 = 17"
  by (simp add: verticalStacked_afterDraw_def verticalStacked_afterDraw_alt_def segmentHeights_def
      example_page_def example_data_def example_geometry_def spec_centre_def spec_height_def
      stack_values_def verticalStacked_datasets_def Let_def)

subsection \<open>C3: the data provider never raises\<close>

text \<open>
  C3. Whatever the transport does and whatever the period is, the observable returned by
  \<open>getClinicDataByPeriod\<close> delivers a value and no error. For a period outside 30, 60, 90
  it delivers the default snapshot and no request is made; when the request for a known
  period fails, it delivers the default snapshot as well. The default snapshot has all
  numeric fields zero and the reporting period \<open>"<period> days"\<close>.
\<close>

theorem getClinicDataByPeriod_never_raises:
  "(\<exists>d. snd (getClinicDataByPeriod digits now http_get period) = Inr d) \<and>
   (period \<notin> {30, 60, 90} \<longrightarrow>
      getClinicDataByPeriod digits now http_get period =
        ([], Inr (getDefaultData digits now period))) \<and>
   (\<forall>path e. fileMap period = Some path \<and> http_get path = Inl e \<longrightarrow>
      getClinicDataByPeriod digits now http_get period =
        ([path], Inr (getDefaultData digits now period))) \<and>
   patientCount (getDefaultData digits now period) = 0 \<and>
   timeInRange (getDefaultData digits now period) =
     \<lparr> inRange = 0, aboveRange = 0, belowRange = 0 \<rparr> \<and>
   gmi (getDefaultData digits now period) =
     \<lparr> average = 0, distribution = \<lparr> optimal = 0, suboptimal = 0, poor = 0 \<rparr> \<rparr> \<and>
   reportingPeriod (getDefaultData digits now period) =
     Number_toString digits period @ '' days''"
  by (auto simp: getClinicDataByPeriod_def fileMap_def getDefaultData_def split: sum.splits)

text \<open>
  The theorem at work: a failing fetch for 60 days, and the period 45, for which nothing
  is requested.
\<close>

theorem getClinicDataByPeriod_never_raises_witness:
  "getClinicDataByPeriod (\<lambda>x. []) ''1/6/2024, 3:00:00 PM'' example_fetch_fails 60 =
     ([''/resource/60day-results.json''],
      Inr \<lparr> patientCount = 0, reportingPeriod = ''60 days'',
            dateRange = ''No data available'', lastUpdated = ''1/6/2024, 3:00:00 PM'',
            timeInRange = \<lparr> inRange = 0, aboveRange = 0, belowRange = 0 \<rparr>,
            gmi = \<lparr> average = 0,
                    distribution = \<lparr> optimal = 0, suboptimal = 0, poor = 0 \<rparr> \<rparr> \<rparr>) \<and>
   getClinicDataByPeriod (\<lambda>x. []) ''1/6/2024, 3:00:00 PM'' example_fetch_fails 45 =
     ([],
      Inr \<lparr> patientCount = 0, reportingPeriod = ''45 days'',
            dateRange = ''No data available'', lastUpdated = ''1/6/2024, 3:00:00 PM'',
            timeInRange = \<lparr> inRange = 0, aboveRange = 0, belowRange = 0 \<rparr>,
            gmi = \<lparr> average = 0,
                    distribution = \<lparr> optimal = 0, suboptimal = 0, poor = 0 \<rparr> \<rparr> \<rparr>)"
  using getClinicDataByPeriod_never_raises
    [of "\<lambda>x. []" "''1/6/2024, 3:00:00 PM''" example_fetch_fails 60]
    getClinicDataByPeriod_never_raises
    [of "\<lambda>x. []" "''1/6/2024, 3:00:00 PM''" example_fetch_fails 45]
  by (simp add: fileMap_def getDefaultData_def Number_toString_def nat_toString.simps
      digit_char_def example_fetch_fails_def)

subsection \<open>C4: tick positions of the scale ruler\<close>

text \<open>
  C4, as amended. The plugin of the proportional ruler writes the six ticks 40, 54, 70,
  180, 240, 400 at the left edge of the draw area plus, for tick \<open>i\<close>, the cumulated width
  of the segments 14, 16, 110, 60, 160 before it, over 360, times the draw width: the
  fractions 0, 14/360, 30/360, 140/360, 200/360, 1; the only other text it writes is the
  unit \<open>mg/dL\<close> above the middle. The plugin in
  \<open>src/app/app.component.ts\<close>, whose five segments all have width 10 on an axis of 50,
  writes the same six ticks evenly, tick \<open>i\<close> at \<open>i / 5\<close> of the draw width. In both the
  positions do not decrease from left to right when the draw width is not negative.
\<close>

theorem scale_ruler_ticks:
  "labels (horizontalScale_afterDraw digits g) =
     labels (scale_ticks digits g)
     @ [(''mg/dL'', area_left g + (area_right g - area_left g) / 2, area_top g - 25)] \<and>
   map fst (labels (scale_ticks digits g)) = [''40'', ''54'', ''70'', ''180'', ''240'', ''400''] \<and>
   map (\<lambda>l. fst (snd l)) (labels (scale_ticks digits g)) =
     map (\<lambda>i. area_left g + (area_right g - area_left g)
                 * spec_tick_position horizontalScale_datasets horizontalScale_x_max i)
       [0, 1, 2, 3, 4, 5] \<and>
   map (spec_tick_position horizontalScale_datasets horizontalScale_x_max) [0, 1, 2, 3, 4, 5] =
     [0, 14 / 360, 30 / 360, 140 / 360, 200 / 360, 1] \<and>
   map fst (labels (horizontalScale_afterDraw_alt g)) =
     [''40'', ''54'', ''70'', ''180'', ''240'', ''400''] \<and>
   map (\<lambda>l. fst (snd l)) (labels (horizontalScale_afterDraw_alt g)) =
     map (\<lambda>i. area_left g + (area_right g - area_left g) * (real i / 5)) [0, 1, 2, 3, 4, 5] \<and>
   (area_left g \<le> area_right g \<longrightarrow>
      sorted (map (\<lambda>l. fst (snd l)) (labels (scale_ticks digits g))) \<and>
      sorted (map (\<lambda>l. fst (snd l)) (labels (horizontalScale_afterDraw_alt g))))"
proof -
  have texts: "map fst (labels (scale_ticks digits g)) =
      [''40'', ''54'', ''70'', ''180'', ''240'', ''400'']"
    by (simp add: scale_ticks_labels)
  have xs: "map (\<lambda>l. fst (snd l)) (labels (scale_ticks digits g)) =
      map (\<lambda>p. area_left g + (area_right g - area_left g) * p)
        [0, 14 / 360, 30 / 360, 140 / 360, 200 / 360, 1]"
    by (simp add: scale_ticks_labels)
  have xs_spec: "map (\<lambda>l. fst (snd l)) (labels (scale_ticks digits g)) =
     map (\<lambda>i. area_left g + (area_right g - area_left g)
                 * spec_tick_position horizontalScale_datasets horizontalScale_x_max i)
       [0, 1, 2, 3, 4, 5]"
  proof -
    have "map (\<lambda>i. area_left g + (area_right g - area_left g)
                 * spec_tick_position horizontalScale_datasets horizontalScale_x_max i)
            [0, 1, 2, 3, 4, 5] =
          map (\<lambda>p. area_left g + (area_right g - area_left g) * p)
            (map (spec_tick_position horizontalScale_datasets horizontalScale_x_max)
               [0, 1, 2, 3, 4, 5])"
      by (simp only: map_map comp_def)
    also have "\<dots> = map (\<lambda>l. fst (snd l)) (labels (scale_ticks digits g))"
      by (simp only: spec_ticks xs)
    finally show ?thesis by (rule sym)
  qed
  have texts_alt: "map fst (labels (horizontalScale_afterDraw_alt g)) =
      [''40'', ''54'', ''70'', ''180'', ''240'', ''400'']"
    by (simp add: scale_alt_labels)
  have xs_alt: "map (\<lambda>l. fst (snd l)) (labels (horizontalScale_afterDraw_alt g)) =
      map (\<lambda>p. area_left g + (area_right g - area_left g) * p) [0, 1 / 5, 2 / 5, 3 / 5, 4 / 5, 1]"
    by (simp add: scale_alt_labels)
  have xs_alt_i: "map (\<lambda>l. fst (snd l)) (labels (horizontalScale_afterDraw_alt g)) =
      map (\<lambda>i. area_left g + (area_right g - area_left g) * (real i / 5)) [0, 1, 2, 3, 4, 5]"
    by (simp add: xs_alt diff_divide_distrib)
  have mono: "sorted (map (\<lambda>l. fst (snd l)) (labels (scale_ticks digits g))) \<and>
      sorted (map (\<lambda>l. fst (snd l)) (labels (horizontalScale_afterDraw_alt g)))"
    if "area_left g \<le> area_right g"
  proof -
    have w: "0 \<le> area_right g - area_left g" using that by simp
    have "sorted [0, 14 / 360, 30 / 360, 140 / 360, 200 / 360, 1 :: real]" by simp
    moreover have "sorted [0, 1 / 5, 2 / 5, 3 / 5, 4 / 5, 1 :: real]" by simp
    ultimately show ?thesis
      unfolding xs xs_alt using w scaled_sorted by blast
  qed
  show ?thesis
    using scale_afterDraw_labels texts xs_spec spec_ticks texts_alt xs_alt_i mono by blast
qed

text \<open>
  C4 as stated fails for the plugin in \<open>src/app/app.component.ts\<close>: on a draw area 300
  wide it writes 54 at x = 60, where 14/360 of the width is 35/3.
\<close>

theorem scale_ruler_alt_evenly_spaced:
  "labels (horizontalScale_afterDraw_alt example_geometry) ! 1 = (''54'', 60, - 5) \<and>
   area_left example_geometry + (area_right example_geometry - area_left example_geometry)
     * spec_tick_position horizontalScale_datasets horizontalScale_x_max 1 = 35 / 3"
  by (simp add: horizontalScale_afterDraw_alt_def labelPositions_alt_def Let_def example_geometry_def
      spec_tick_position_def horizontalScale_datasets_def horizontalScale_x_max_def)

theorem scale_ruler_ticks_witness:
  "area_left example_geometry \<le> area_right example_geometry \<and>
   map (\<lambda>l. fst (snd l)) (labels (scale_ticks (\<lambda>x. []) example_geometry)) =
     [0, 35 / 3, 25, 350 / 3, 500 / 3, 300] \<and>
   sorted (map (\<lambda>l. fst (snd l)) (labels (scale_ticks (\<lambda>x. []) example_geometry))) \<and>
   map (\<lambda>l. fst (snd l)) (labels (horizontalScale_afterDraw_alt example_geometry)) =
     [0, 60, 120, 180, 240, 300]"
  using scale_ruler_ticks [of "\<lambda>x. []" example_geometry]
  by (simp add: example_geometry_def spec_tick_position_def horizontalScale_datasets_def
      horizontalScale_x_max_def)

subsection \<open>C5: texts and anchors of the pie labels\<close>

text \<open>
  C5, as amended. For every distribution, every geometry and every rotation, the
  data-driven pie plugin writes exactly three labels, each the value followed by
  \<open>%\<close>, at the anchors \<open>(cx - 140, cy - 15)\<close>, \<open>(cx + 130, cy + 15)\<close> and
  \<open>(cx + 110, cy + 85)\<close> around the centre \<open>(cx, cy)\<close> of the chart; for 72, 23, 5 the texts
  are 72%, 23%, 5%. The plugin in \<open>src/app/app.component.ts\<close> writes the constant texts
  72%, 23%, 5% whatever the distribution is, at \<open>(cx - 80, cy - 25)\<close>, \<open>(cx + 80, cy + 5)\<close>
  and \<open>(cx + 20, cy + 75)\<close>.
\<close>

theorem pie_labels_at_fixed_anchors:
  "map fst (labels (pie_afterDraw_at rotation digits
       [optimal (distribution (gmi cd)), suboptimal (distribution (gmi cd)),
        poor (distribution (gmi cd))] g)) =
     [Number_toString digits (optimal (distribution (gmi cd))) @ ''%'',
      Number_toString digits (suboptimal (distribution (gmi cd))) @ ''%'',
      Number_toString digits (poor (distribution (gmi cd))) @ ''%''] \<and>
   map snd (labels (pie_afterDraw_at rotation digits
       [optimal (distribution (gmi cd)), suboptimal (distribution (gmi cd)),
        poor (distribution (gmi cd))] g)) =
     map (\<lambda>(x, y). (Fin x, Fin y)) (pie_anchors g) \<and>
   pie_data cd =
     [optimal (distribution (gmi cd)), suboptimal (distribution (gmi cd)),
      poor (distribution (gmi cd))] \<and>
   pie_afterDraw digits (pie_data cd) g = pie_afterDraw_at 150 digits (pie_data cd) g \<and>
   map fst (labels (pie_afterDraw digits [72, 23, 5] g)) = [''72%'', ''23%'', ''5%''] \<and>
   labels (pie_afterDraw_alt (pie_data cd) g) =
     [(''72%'', chart_width g / 2 - 80, chart_height g / 2 - 20 - 5),
      (''23%'', chart_width g / 2 + 80, chart_height g / 2 + 10 - 5),
      (''5%'', chart_width g / 2 + 20, chart_height g / 2 + 80 - 5)]"
proof -
  have texts: "map fst (labels (pie_afterDraw digits [72, 23, 5] g)) = [''72%'', ''23%'', ''5%'']"
    by (simp add: pie_afterDraw_def labels_pie_afterDraw_at Number_toString_def
        nat_toString.simps digit_char_def)
  have data: "pie_data cd =
     [optimal (distribution (gmi cd)), suboptimal (distribution (gmi cd)),
      poor (distribution (gmi cd))]"
    by (rule pie_data_eq)
  show ?thesis
    using texts data
    by (simp add: labels_pie_afterDraw_at labels_pie_afterDraw_alt pie_anchors_def pie_afterDraw_def)
qed

text \<open>
  C5 as stated fails for the plugin in \<open>src/app/app.component.ts\<close>: for the distribution
  50, 30, 20 it still writes 72%, 23%, 5%.
\<close>

theorem pie_alt_text_ignores_data:
  "map fst (labels (pie_afterDraw_alt [50, 30, 20] example_geometry)) = [''72%'', ''23%'', ''5%''] \<and>
   map (\<lambda>v. Number_toString (\<lambda>x. []) v @ ''%'') [50, 30, 20] = [''50%'', ''30%'', ''20%'']"
  by (simp add: labels_pie_afterDraw_alt Number_toString_def nat_toString.simps digit_char_def)

subsection \<open>C6: the segment heights fill the draw area\<close>

text \<open>
  C6. When the three percentages sum to 100, the three pixel heights the plugin computes
  sum to the height of the draw area (exactly, in the arithmetic of the reals).
\<close>

theorem segment_heights_fill_draw_area:
  assumes "belowRange (timeInRange cd) + inRange (timeInRange cd) + aboveRange (timeInRange cd)
           = 100"
  shows "(case segmentHeights cd g of
            (belowHeight, inRangeHeight, aboveHeight) \<Rightarrow>
              belowHeight + inRangeHeight + aboveHeight)
         = area_height g"
proof -
  have "belowRange (timeInRange cd) / 100 * area_height g
        + inRange (timeInRange cd) / 100 * area_height g
        + aboveRange (timeInRange cd) / 100 * area_height g
        = (belowRange (timeInRange cd) + inRange (timeInRange cd) + aboveRange (timeInRange cd))
           / 100 * area_height g"
    by (simp add: algebra_simps add_divide_distrib)
  also have "\<dots> = area_height g"
    using assms by simp
  finally show ?thesis
    by (simp add: segmentHeights_eq spec_height_def)
qed

theorem segment_heights_fill_draw_area_witness:
  "segmentHeights
     (example_data\<lparr> timeInRange := \<lparr> inRange = 80, aboveRange = 15, belowRange = 5 \<rparr> \<rparr>)
     example_geometry = (10, 160, 30) \<and>
   area_height example_geometry = 200"
  using segment_heights_fill_draw_area
    [of "example_data\<lparr> timeInRange := \<lparr> inRange = 80, aboveRange = 15, belowRange = 5 \<rparr> \<rparr>"
        example_geometry]
  by (simp add: segmentHeights_def example_geometry_def Let_def)

subsection \<open>C7: the chart list after a period switch\<close>



subsection \<open>C8: the layouts are functions of values and geometry\<close>

text \<open>
  C8. What the overlay plugins draw is determined by the snapshot values they read and
  the draw geometry: two pages that agree on the time-in-range triple give the same
  vertical overlay on geometries that agree on the bar and the draw area, whatever else
  differs between them (the charts held, the selected period, the other fields of the
  snapshot); the ruler overlay depends on the draw area alone; the pie overlay on the
  distribution and the size of the chart. A plugin yields its drawing operations and
  nothing else: it assigns to no field of the component.
\<close>

theorem layouts_depend_only_on_values_and_geometry:
  "(timeInRange (clinicData s) = timeInRange (clinicData s') \<and>
    bar_x g = bar_x g' \<and> bar_width g = bar_width g' \<and> area_top g = area_top g' \<and>
    area_bottom g = area_bottom g' \<and> area_height g = area_height g' \<longrightarrow>
      verticalStacked_afterDraw s g = verticalStacked_afterDraw s' g' \<and>
      verticalStacked_afterDraw_alt s g = verticalStacked_afterDraw_alt s' g') \<and>
   (area_left g = area_left g' \<and> area_right g = area_right g' \<and> area_top g = area_top g' \<and>
    area_bottom g = area_bottom g' \<longrightarrow>
      horizontalScale_afterDraw digits g = horizontalScale_afterDraw digits g' \<and>
      horizontalScale_afterDraw_alt g = horizontalScale_afterDraw_alt g') \<and>
   (distribution (gmi cd) = distribution (gmi cd') \<and>
    chart_width g = chart_width g' \<and> chart_height g = chart_height g' \<longrightarrow>
      pie_afterDraw digits (pie_data cd) g = pie_afterDraw digits (pie_data cd') g' \<and>
      pie_afterDraw_alt (pie_data cd) g = pie_afterDraw_alt (pie_data cd') g')"
  by (simp add: verticalStacked_afterDraw_def verticalStacked_afterDraw_alt_def segmentHeights_def
      horizontalScale_afterDraw_def horizontalScale_afterDraw_alt_def scale_ticks_def
      scale_dividers_def labelPositions_alt_def pie_afterDraw_def pie_afterDraw_at_def
      pie_afterDraw_alt_def pie_labels_alt_def pie_data_def gmi_datasets_def Let_def)

theorem layouts_depend_only_on_values_and_geometry_witness:
  "verticalStacked_afterDraw example_page example_geometry =
     verticalStacked_afterDraw example_live_page
       (example_geometry\<lparr> chart_width := 640, area_left := 12 \<rparr>) \<and>
   horizontalScale_afterDraw (\<lambda>x. []) example_geometry =
     horizontalScale_afterDraw (\<lambda>x. []) (example_geometry\<lparr> chart_width := 640, bar_x := 0 \<rparr>) \<and>
   pie_afterDraw (\<lambda>x. []) (pie_data example_data) example_geometry =
     pie_afterDraw (\<lambda>x. [])
       (pie_data (example_data\<lparr> patientCount := 7, reportingPeriod := ''90 days'' \<rparr>))
       (example_geometry\<lparr> area_left := 12, bar_x := 0 \<rparr>)"
  using layouts_depend_only_on_values_and_geometry
    [where s = example_page and s' = example_live_page and g = example_geometry
       and g' = "example_geometry\<lparr> chart_width := 640, area_left := 12 \<rparr>"]
    layouts_depend_only_on_values_and_geometry
    [where g = example_geometry and digits = "\<lambda>x. []"
       and g' = "example_geometry\<lparr> chart_width := 640, bar_x := 0 \<rparr>"]
    layouts_depend_only_on_values_and_geometry
    [where g = example_geometry and digits = "\<lambda>x. []" and cd = example_data
       and cd' = "example_data\<lparr> patientCount := 7, reportingPeriod := ''90 days'' \<rparr>"
       and g' = "example_geometry\<lparr> area_left := 12, bar_x := 0 \<rparr>"]
  by (simp add: example_page_def example_live_page_def example_geometry_def example_data_def)

subsection \<open>C9: the name of the exported image\<close>

text \<open>
  C9. For every capture time the file name is \<open>clinic-outcomes-\<close>, then the ISO timestamp
  up to its seconds with the two colons of the time replaced by dashes (the dot, the
  milliseconds and the \<open>Z\<close> are cut off by the slice), then \<open>.png\<close>.
\<close>

theorem downloadImage_filename_pattern:
  assumes "milliseconds now < 1000"
  shows "downloadImage_filename now =
           ''clinic-outcomes-'' @ year_string (year now) @ ''-'' @ two (month now) @ ''-'' @
           two (day now) @ ''T'' @ two (hours now) @ ''-'' @ two (minutes now) @ ''-'' @
           two (seconds now) @ ''.png''"
proof -
  define ms where "ms = padStart 3 CHR ''0'' (nat_toString (milliseconds now))"
  define stem where "stem = year_string (year now) @ ''-'' @ two (month now) @ ''-'' @
           two (day now) @ ''T'' @ two (hours now) @ ''-'' @ two (minutes now) @ ''-'' @
           two (seconds now)"
  have ms3: "length ms = 3"
    unfolding ms_def using assms by (rule length_pad3)
  have ms_plain: "replace_colon_dot ms = ms"
    unfolding ms_def by (intro replace_plain plain_padStart plain_nat_toString)
  have lit: "replace_colon_dot ''-'' = ''-''" "replace_colon_dot ''T'' = ''T''"
    "replace_colon_dot '':'' = ''-''" "replace_colon_dot ''.'' = ''-''"
    "replace_colon_dot ''Z'' = ''Z''"
    by (simp_all add: replace_colon_dot_def)
  have "replace_colon_dot (toISOString now) = stem @ (''-'' @ ms @ ''Z'')"
    unfolding toISOString_def stem_def ms_def [symmetric]
    by (simp only: replace_append lit ms_plain replace_plain [OF plain_two]
        replace_plain [OF plain_year] append_assoc)
  moreover have "length (''-'' @ ms @ ''Z'') = 5"
    using ms3 by simp
  ultimately have "slice_from_start (replace_colon_dot (toISOString now)) (- 5) = stem"
    by (simp add: slice_from_start_def)
  then show ?thesis
    by (simp add: downloadImage_filename_def stem_def)
qed

theorem downloadImage_filename_pattern_witness:
  "milliseconds \<lparr> year = 2024, month = 1, day = 6, hours = 15, minutes = 0, seconds = 7,
                  milliseconds = 42 \<rparr> < 1000 \<and>
   toISOString \<lparr> year = 2024, month = 1, day = 6, hours = 15, minutes = 0, seconds = 7,
                 milliseconds = 42 \<rparr> = ''2024-01-06T15:00:07.042Z'' \<and>
   downloadImage_filename \<lparr> year = 2024, month = 1, day = 6, hours = 15, minutes = 0,
                            seconds = 7, milliseconds = 42 \<rparr> =
     ''clinic-outcomes-2024-01-06T15-00-07.png''"
  using downloadImage_filename_pattern
    [of "\<lparr> year = 2024, month = 1, day = 6, hours = 15, minutes = 0, seconds = 7,
            milliseconds = 42 \<rparr>"]
  by (simp add: toISOString_def year_string_def two_def padStart_def nat_toString.simps
      digit_char_def)

subsection \<open>C10: the label texts of the vertical stacked bar are constants\<close>

text \<open>
  C10. In both copies of the component the four label texts of the vertical overlay are
  the literals 2%, 82%, 15% and 1% (drawn in the order 2%, 82%, 1%, 15% in one copy and
  2%, 82%, 15%, 1% in the other), for every page and geometry; two pages with different
  snapshots give the same texts and the same x coordinates on the same geometry, so only
  the y coordinates can depend on the data.
\<close>

theorem verticalStacked_label_text_constant:
  "map fst (labels (verticalStacked_afterDraw s g)) = [''2%'', ''82%'', ''1%'', ''15%''] \<and>
   map fst (labels (verticalStacked_afterDraw_alt s g)) = [''2%'', ''82%'', ''15%'', ''1%''] \<and>
   map fst (labels (verticalStacked_afterDraw s' g)) = map fst (labels (verticalStacked_afterDraw s g)) \<and>
   map fst (labels (verticalStacked_afterDraw_alt s' g)) =
     map fst (labels (verticalStacked_afterDraw_alt s g)) \<and>
   map (\<lambda>l. fst (snd l)) (labels (verticalStacked_afterDraw s' g)) =
     map (\<lambda>l. fst (snd l)) (labels (verticalStacked_afterDraw s g)) \<and>
   map (\<lambda>l. fst (snd l)) (labels (verticalStacked_afterDraw_alt s' g)) =
     map (\<lambda>l. fst (snd l)) (labels (verticalStacked_afterDraw_alt s g))"
  by (simp add: verticalStacked_afterDraw_def verticalStacked_afterDraw_alt_def segmentHeights_def
      Let_def)

end
